theory Spec2Isabelle
  imports Complex_Main "HOL-Library.Product_Lexorder" "HOL-Library.Multiset"
begin

section \<open>Python values\<close>

text \<open>
  A Python \<open>str\<close> is modelled as a \<^typ>\<open>string\<close>: each \<^typ>\<open>char\<close> stands for one code
  point below 256, and the character classes below are those of CPython 3 on that range.
  An exception is a value of \<open>py_error\<close>; a computation that may raise returns
  \<open>py_error + 'a\<close>, with \<open>Inl\<close> for the exception that leaves it.
\<close>

datatype py_error = KeyError | TypeError | IndexError | ValueError

text \<open>\<open>str.isspace\<close>, the separators of \<open>str.split()\<close>.\<close>

definition isspace :: "char \<Rightarrow> bool" where
  "isspace c = (of_char c \<in> set [9, 10, 11, 12, 13, 28, 29, 30, 31, 32, 133, 160 :: nat])"

text \<open>The regular expression classes \<open>\d\<close> and \<open>\w\<close> of a \<open>str\<close> pattern.\<close>

definition isdigit :: "char \<Rightarrow> bool" where
  "isdigit c = (48 \<le> (of_char c :: nat) \<and> (of_char c :: nat) \<le> 57)"

definition isword :: "char \<Rightarrow> bool" where
  "isword c = (let n = of_char c :: nat in
     (48 \<le> n \<and> n \<le> 57) \<or> (65 \<le> n \<and> n \<le> 90) \<or> n = 95 \<or> (97 \<le> n \<and> n \<le> 122) \<or>
     n \<in> set [170, 178, 179, 181, 185, 186, 188, 189, 190] \<or>
     (192 \<le> n \<and> n \<le> 214) \<or> (216 \<le> n \<and> n \<le> 246) \<or> (248 \<le> n \<and> n \<le> 255))"

text \<open>\<open>str.lower()\<close>: below 256 every upper-case letter lies 32 under its lower-case one.\<close>

definition lower_char :: "char \<Rightarrow> char" where
  "lower_char c = (let n = of_char c :: nat in
     if (65 \<le> n \<and> n \<le> 90) \<or> (192 \<le> n \<and> n \<le> 222 \<and> n \<noteq> 215)
     then char_of (n + 32) else c)"

definition lower :: "string \<Rightarrow> string" where
  "lower s = map lower_char s"

text \<open>\<open>str.split()\<close> with no argument: the maximal runs of characters that are not spaces.\<close>

fun split_from :: "string \<Rightarrow> string \<Rightarrow> string list" where
  "split_from cur [] = (if cur = [] then [] else [cur])"
| "split_from cur (c # cs) =
     (if isspace c then (if cur = [] then split_from [] cs else cur # split_from [] cs)
      else split_from (cur @ [c]) cs)"

definition str_split :: "string \<Rightarrow> string list" where
  "str_split s = split_from [] s"

text \<open>\<open>sep.join(xs)\<close>.\<close>

fun join :: "string \<Rightarrow> string list \<Rightarrow> string" where
  "join sep [] = []"
| "join sep [x] = x"
| "join sep (x # y # ys) = x @ sep @ join sep (y # ys)"

text \<open>\<open>str(n)\<close> of an \<open>int\<close>, as an f-string field renders it.\<close>

fun str_nat :: "nat \<Rightarrow> string" where
  "str_nat n =
     (if n < 10 then [''0123456789'' ! n]
      else str_nat (n div 10) @ [''0123456789'' ! (n mod 10)])"

declare str_nat.simps [simp del]

definition str :: "int \<Rightarrow> string" where
  "str i = (if i < 0 then CHR ''-'' # str_nat (nat (- i)) else str_nat (nat i))"

text \<open>
  \<open>int(s)\<close> of a \<open>str\<close>: blanks around, an optional sign, then decimal digits, where single
  underscores may stand between two digits. Anything else raises \<open>ValueError\<close>.
\<close>

definition int_space :: "char \<Rightarrow> bool" where
  "int_space c = (of_char c \<in> set [9, 10, 11, 12, 13, 32, 133, 160 :: nat])"

fun digits_ok :: "string \<Rightarrow> bool" where
  "digits_ok [] = False"
| "digits_ok [d] = isdigit d"
| "digits_ok (d # c # cs) =
     (isdigit d \<and> (if c = CHR ''_'' then cs \<noteq> [] \<and> digits_ok cs else digits_ok (c # cs)))"

definition digit_val :: "char \<Rightarrow> nat" where
  "digit_val c = of_char c - 48"

definition decimal :: "string \<Rightarrow> nat" where
  "decimal ds = foldl (\<lambda>acc d. 10 * acc + digit_val d) 0 (filter isdigit ds)"

definition py_int :: "string \<Rightarrow> py_error + int" where
  "py_int s =
     (let t = rev (dropWhile int_space (rev (dropWhile int_space s)));
          neg = (t \<noteq> [] \<and> hd t = CHR ''-'');
          ds = (if t \<noteq> [] \<and> (hd t = CHR ''-'' \<or> hd t = CHR ''+'') then tl t else t)
      in if digits_ok ds then Inr (if neg then - int (decimal ds) else int (decimal ds))
         else Inl ValueError)"

section \<open>The alias normaliser: \<open>scripts/common_names.py\<close>\<close>

text \<open>
  \<^verbatim>\<open>TIER_REGEX = r"(?:T(\d))_(\w+)(?:@(\d))?"\<close>. \<open>TIER_REGEX_at s\<close> is the match that starts at
  the head of \<open>s\<close>, if there is one: its three groups (the unmatched optional group is the
  empty string, as \<open>re.findall\<close> reports it) and the text after the match; \<open>enchant_group\<close>
  is the optional \<^verbatim>\<open>(?:@(\d))?\<close>. \<open>\w+\<close> is greedy
  and \<open>@\<close> is no word character, so the optional group is tried once, right after the
  longest run of word characters.
\<close>

definition enchant_group :: "string \<Rightarrow> string \<times> string" where
  "enchant_group r =
     (case r of
        a # e # r' \<Rightarrow> if a = CHR ''@'' \<and> isdigit e then ([e], r') else ([], r)
      | _ \<Rightarrow> ([], r))"

definition TIER_REGEX_at :: "string \<Rightarrow> ((string \<times> string \<times> string) \<times> string) option" where
  "TIER_REGEX_at s =
     (case s of
        t # d # u # r \<Rightarrow>
          if t = CHR ''T'' \<and> isdigit d \<and> u = CHR ''_'' \<and> takeWhile isword r \<noteq> [] then
            Some (([d], takeWhile isword r, fst (enchant_group (dropWhile isword r))),
                  snd (enchant_group (dropWhile isword r)))
          else None
      | _ \<Rightarrow> None)"

lemma enchant_group_shorter: "length (snd (enchant_group r)) \<le> length r"
  by (simp add: enchant_group_def split: list.splits)

lemma TIER_REGEX_at_shorter:
  assumes "TIER_REGEX_at s = Some (g, r)"
  shows "length r < length s"
proof -
  from assms obtain t d u r0 where s: "s = t # d # u # r0"
    and r: "r = snd (enchant_group (dropWhile isword r0))"
    by (auto simp: TIER_REGEX_at_def split: list.splits if_splits)
  have "length r \<le> length (dropWhile isword r0)"
    unfolding r by (rule enchant_group_shorter)
  also have "\<dots> \<le> length r0"
    by (rule length_dropWhile_le)
  finally show ?thesis
    using s by simp
qed

text \<open>\<open>re.findall(TIER_REGEX, s)\<close>: the matches from left to right, none overlapping.\<close>

function findall :: "string \<Rightarrow> (string \<times> string \<times> string) list" where
  "findall s =
     (case s of
        [] \<Rightarrow> []
      | c # cs \<Rightarrow>
          (case TIER_REGEX_at s of
             Some (g, r) \<Rightarrow> g # findall r
           | None \<Rightarrow> findall cs))"
  by pat_completeness auto
termination
  by (relation "measure length") (auto dest: TIER_REGEX_at_shorter)

declare findall.simps [simp del]

text \<open>
  \<^verbatim>\<open>_tryInt(number, default)\<close>: \<open>int(number)\<close>, and the default when that raises \<open>ValueError\<close>; any
  other exception would propagate.
\<close>

definition tryInt :: "string \<Rightarrow> int \<Rightarrow> py_error + int" where
  "tryInt number dflt =
     (case py_int number of
        Inr v \<Rightarrow> Inr v
      | Inl ValueError \<Rightarrow> Inr dflt
      | Inl e \<Rightarrow> Inl e)"

text \<open>The named tuple \<^verbatim>\<open>ItemName(tier, name, enchant)\<close>.\<close>

record ItemName =
  tier :: int
  name :: string
  enchant :: int

text \<open>\<^verbatim>\<open>_convertItem(name)\<close>: the first match of \<open>TIER_REGEX\<close>, or the defaults.\<close>

definition convertItem :: "string \<Rightarrow> py_error + ItemName" where
  "convertItem s =
     (case findall s of
        (t, n, e) # _ \<Rightarrow>
          (case tryInt t 1 of
             Inl err \<Rightarrow> Inl err
           | Inr ti \<Rightarrow>
               (case tryInt e 0 of
                  Inl err \<Rightarrow> Inl err
                | Inr en \<Rightarrow> Inr \<lparr>tier = ti, name = n, enchant = en\<rparr>))
      | [] \<Rightarrow> Inr \<lparr>tier = 1, name = s, enchant = 0\<rparr>)"

text \<open>
  An item of the catalog is a JSON object. Of its keys the code reads \<open>UniqueName\<close>,
  \<open>LocalizedNames\<close> and \<open>CommonNames\<close>; each may be missing (\<open>None\<close>, \<open>Absent\<close>: reading it
  raises \<open>KeyError\<close>). \<open>LocalizedNames\<close> is \<open>null\<close> for some items of the published catalog
  (\<open>Null\<close>: subscripting it raises \<open>TypeError\<close>), and otherwise an object from locale to
  display name, kept as the association list of its entries in order (its keys are
  distinct).
\<close>

datatype localized = Absent | Null | Names "(string \<times> string) list"

record item =
  UniqueName :: "string option"
  LocalizedNames :: localized
  CommonNames :: "string list option"

text \<open>\<^verbatim>\<open>item["CommonNames"].append(s)\<close>.\<close>

definition append_common :: "string \<Rightarrow> item \<Rightarrow> py_error + item" where
  "append_common s it =
     (case CommonNames it of
        None \<Rightarrow> Inl KeyError
      | Some cs \<Rightarrow> Inr (it\<lparr>CommonNames := Some (cs @ [s])\<rparr>))"

text \<open>Running one statement after another: the second runs on what the first returned.\<close>

definition and_then :: "py_error + 'a \<Rightarrow> ('a \<Rightarrow> py_error + 'b) \<Rightarrow> py_error + 'b" where
  "and_then r f = (case r of Inl e \<Rightarrow> Inl e | Inr v \<Rightarrow> f v)"

text \<open>The two f-strings \<^verbatim>\<open>f"T{name.tier}.{name.enchant}"\<close> and \<^verbatim>\<open>f"T{name.tier}"\<close>.\<close>

definition short_dotted :: "ItemName \<Rightarrow> string" where
  "short_dotted nm = ''T'' @ str (tier nm) @ ''.'' @ str (enchant nm)"

definition short_bare :: "ItemName \<Rightarrow> string" where
  "short_bare nm = ''T'' @ str (tier nm)"

text \<open>\<^verbatim>\<open>_addTierNickname(name, item)\<close>.\<close>

definition addTierNickname :: "ItemName \<Rightarrow> item \<Rightarrow> py_error + item" where
  "addTierNickname nm it =
     and_then (append_common (short_dotted nm @ '' '' @ name nm) it) (\<lambda>it1.
       if enchant nm = 0 then append_common (short_bare nm @ '' '' @ name nm) it1
       else Inr it1)"

text \<open>\<^verbatim>\<open>item["LocalizedNames"]["EN-US"]\<close>.\<close>

definition en_us :: "item \<Rightarrow> py_error + string" where
  "en_us it =
     (case LocalizedNames it of
        Absent \<Rightarrow> Inl KeyError
      | Null \<Rightarrow> Inl TypeError
      | Names kvs \<Rightarrow> (case map_of kvs ''EN-US'' of None \<Rightarrow> Inl KeyError | Some v \<Rightarrow> Inr v))"

text \<open>\<open>xs[i]\<close> for an index \<open>i \<ge> 0\<close>.\<close>

definition index :: "'a list \<Rightarrow> nat \<Rightarrow> py_error + 'a" where
  "index xs i = (if i < length xs then Inr (xs ! i) else Inl IndexError)"

definition TIER_LONG_NAMES :: "string set" where
  "TIER_LONG_NAMES =
     set [''Journeyman's'', ''Adept's'', ''Expert's'', ''Master's'', ''Grandmaster's'', ''Elder's'']"

definition ENC_LONG_NAMES :: "string set" where
  "ENC_LONG_NAMES = set [''Uncommon'', ''Rare'', ''Exceptional'', ''Cured'']"

definition RESOURCE_NAMES :: "string set" where
  "RESOURCE_NAMES =
     set [''Birch'', ''Pine'', ''Cedar'', ''Bloodoak'', ''Ashenbark'', ''Whitewood'', ''Copper'',
          ''Tin'', ''Iron'', ''Titatnium'', ''Runite'', ''Meteorite'', ''Adamantium'', ''Rugged'',
          ''Thin'', ''Medium'', ''Heavy'', ''Robust'', ''Thick'', ''Resilient'', ''Bronze'',
          ''Stiff'', ''Thick'', ''Worked'', ''Cured'', ''Hardened'', ''Reinforced'', ''Fortified'',
          ''Simple'', ''Neat'', ''Fine'', ''Ornate'', ''Lavish'', ''Opulent'', ''Baroque'']"

text \<open>
  \<^verbatim>\<open>_replaceLongTierName(name, item)\<close>. \<open>replaceLongTierName_try\<close> is the body of the \<open>try\<close>;
  the handler catches \<open>TypeError\<close> alone, which only the first statement can raise, so
  the item is still as it was.
\<close>

definition replaceLongTierName_try :: "ItemName \<Rightarrow> item \<Rightarrow> py_error + item" where
  "replaceLongTierName_try nm it =
     and_then (en_us it) (\<lambda>longName.
       let fields = str_split longName in
       and_then (index fields 0) (\<lambda>first.
         if first \<in> TIER_LONG_NAMES then
           and_then (append_common (join '' '' ([short_dotted nm] @ drop 1 fields)) it) (\<lambda>it1.
             if enchant nm = 0 then
               append_common (join '' '' ([short_bare nm] @ drop 1 fields)) it1
             else Inr it1)
         else Inr it))"

definition replaceLongTierName :: "ItemName \<Rightarrow> item \<Rightarrow> py_error + item" where
  "replaceLongTierName nm it =
     (case replaceLongTierName_try nm it of
        Inl TypeError \<Rightarrow> Inr it
      | r \<Rightarrow> r)"

text \<open>\<^verbatim>\<open>_replaceLongEnchantName(name, item)\<close>, in the same way.\<close>

definition replaceLongEnchantName_try :: "ItemName \<Rightarrow> item \<Rightarrow> py_error + item" where
  "replaceLongEnchantName_try nm it =
     and_then (en_us it) (\<lambda>longName.
       let fields = str_split longName in
       and_then (index fields 0) (\<lambda>first.
         if first \<in> ENC_LONG_NAMES then
           and_then (append_common (join '' '' ([short_dotted nm] @ drop 1 fields)) it) (\<lambda>it1.
           and_then (index fields 1) (\<lambda>second.
           and_then (if second \<in> RESOURCE_NAMES
                     then append_common (join '' '' ([short_dotted nm] @ drop 2 fields)) it1
                     else Inr it1) (\<lambda>it2.
             if enchant nm = 0 then
               and_then (append_common (join '' '' ([short_bare nm] @ drop 1 fields)) it2) (\<lambda>it3.
               and_then (index fields 1) (\<lambda>second'.
                 if second' \<in> RESOURCE_NAMES
                 then append_common (join '' '' ([short_bare nm] @ drop 2 fields)) it3
                 else Inr it3))
             else Inr it2)))
         else Inr it))"

definition replaceLongEnchantName :: "ItemName \<Rightarrow> item \<Rightarrow> py_error + item" where
  "replaceLongEnchantName nm it =
     (case replaceLongEnchantName_try nm it of
        Inl TypeError \<Rightarrow> Inr it
      | r \<Rightarrow> r)"

text \<open>
  \<^verbatim>\<open>main()\<close>. \<open>main_item\<close> is the body of its loop for one item, \<open>main_loop\<close> the loop over
  \<open>rawData\<close>: what it returns is the list written to \<open>items.json\<close>, and an exception leaves
  \<open>main\<close> before anything is written. The download and the file are outside the model.
\<close>

definition main_item :: "item \<Rightarrow> py_error + item" where
  "main_item it0 =
     (let it = it0\<lparr>CommonNames := Some []\<rparr> in
      and_then (case UniqueName it of None \<Rightarrow> Inl KeyError | Some u \<Rightarrow> Inr u) (\<lambda>u.
      and_then (convertItem u) (\<lambda>nm.
      and_then (addTierNickname nm it) (\<lambda>it1.
      and_then (replaceLongTierName nm it1) (\<lambda>it2.
        replaceLongEnchantName nm it2)))))"

fun main_loop :: "item list \<Rightarrow> py_error + item list" where
  "main_loop [] = Inr []"
| "main_loop (it # rawData) =
     and_then (main_item it) (\<lambda>it'.
     and_then (main_loop rawData) (\<lambda>rest. Inr (it' # rest)))"

section \<open>The fuzzy matcher: \<open>item_match\<close> of \<open>cogs/fetchprice.py\<close>\<close>

text \<open>
  \<open>difflib\<close> is a library, so the matcher is modelled for any distance function: \<open>jd w1 w2\<close>
  stands for the float \<^verbatim>\<open>1 - difflib.SequenceMatcher(None, w1, w2).ratio()\<close>. A float is a
  rational number, and Python orders floats and the integer \<open>1\<close> of the handlers by their
  values, so a distance is a \<^typ>\<open>rat\<close>. An entry \<^verbatim>\<open>[jDist, i]\<close> of \<open>jDists\<close> is a pair.
\<close>

type_synonym distance = "string \<Rightarrow> string \<Rightarrow> rat"

text \<open>The body of the first \<open>try\<close>: the distance to the item's \<open>UniqueName\<close>.\<close>

definition uniqueName_jDist :: "distance \<Rightarrow> string \<Rightarrow> item \<Rightarrow> py_error + rat" where
  "uniqueName_jDist jd inputWord indivData =
     (case UniqueName indivData of
        None \<Rightarrow> Inl KeyError
      | Some u \<Rightarrow> Inr (jd (lower inputWord) (lower u)))"

text \<open>\<open>min(xs)\<close> of a list of numbers.\<close>

fun py_min :: "rat list \<Rightarrow> py_error + rat" where
  "py_min [] = Inl ValueError"
| "py_min (x # xs) = Inr (fold min xs x)"

text \<open>
  The body of the second \<open>try\<close>: the least distance to a localised name. The loop reads
  the value of every key of the object, which are the values of its entries.
\<close>

definition localizedNames_jDist :: "distance \<Rightarrow> string \<Rightarrow> item \<Rightarrow> py_error + rat" where
  "localizedNames_jDist jd inputWord indivData =
     (case LocalizedNames indivData of
        Absent \<Rightarrow> Inl KeyError
      | Null \<Rightarrow> Inl TypeError
      | Names kvs \<Rightarrow> py_min (map (\<lambda>kv. jd (lower inputWord) (lower (snd kv))) kvs))"

text \<open>A bare \<^verbatim>\<open>except:\<close> catches every exception; both handlers append the distance \<open>1\<close>.\<close>

definition or_one :: "py_error + rat \<Rightarrow> rat" where
  "or_one r = (case r of Inr d \<Rightarrow> d | Inl e \<Rightarrow> 1)"

text \<open>The body of the loop over \<open>enumerate(data)\<close>, and the loop, from index \<open>i\<close> on.\<close>

definition score_item ::
  "distance \<Rightarrow> string \<Rightarrow> nat \<Rightarrow> item \<Rightarrow> (rat \<times> nat) list \<Rightarrow> py_error + (rat \<times> nat) list" where
  "score_item jd inputWord i indivData jDists =
     (let jDists1 = jDists @ [(or_one (uniqueName_jDist jd inputWord indivData), i)];
          jDists2 = jDists1 @ [(or_one (localizedNames_jDist jd inputWord indivData), i)]
      in case CommonNames indivData of
           None \<Rightarrow> Inl KeyError
         | Some cnames \<Rightarrow>
             Inr (fold (\<lambda>cname acc. acc @ [(jd (lower inputWord) (lower cname), i)])
                    cnames jDists2))"

fun match_loop ::
  "distance \<Rightarrow> string \<Rightarrow> nat \<Rightarrow> item list \<Rightarrow> (rat \<times> nat) list \<Rightarrow> py_error + (rat \<times> nat) list" where
  "match_loop jd inputWord i [] jDists = Inr jDists"
| "match_loop jd inputWord i (indivData # data) jDists =
     and_then (score_item jd inputWord i indivData jDists)
       (match_loop jd inputWord (Suc i) data)"

text \<open>A list comprehension \<^verbatim>\<open>[f(x) for x in xs]\<close>: the first exception ends it.\<close>

fun comprehension :: "('a \<Rightarrow> py_error + 'b) \<Rightarrow> 'a list \<Rightarrow> py_error + 'b list" where
  "comprehension f [] = Inr []"
| "comprehension f (x # xs) =
     and_then (f x) (\<lambda>y. and_then (comprehension f xs) (\<lambda>ys. Inr (y # ys)))"

text \<open>\<^verbatim>\<open>data[jDist[1]]["LocalizedNames"]["EN-US"]\<close> and \<^verbatim>\<open>data[jDist[1]]["UniqueName"]\<close>.\<close>

definition name_of :: "item list \<Rightarrow> rat \<times> nat \<Rightarrow> py_error + string" where
  "name_of data jDist = and_then (index data (snd jDist)) en_us"

definition id_of :: "item list \<Rightarrow> rat \<times> nat \<Rightarrow> py_error + string" where
  "id_of data jDist =
     and_then (index data (snd jDist)) (\<lambda>indivData.
       case UniqueName indivData of None \<Rightarrow> Inl KeyError | Some u \<Rightarrow> Inr u)"

text \<open>
  \<^verbatim>\<open>item_match(self, inputWord)\<close>, with \<open>self.itemData\<close> as \<open>data\<close>. \<open>sorted\<close> orders the
  entries as Python compares lists: by distance first, then by index; this is the order
  of pairs, and entries that compare equal are equal.
\<close>

definition item_match ::
  "distance \<Rightarrow> string \<Rightarrow> item list \<Rightarrow> py_error + (string list \<times> string list)" where
  "item_match jd inputWord data =
     and_then (match_loop jd inputWord 0 data []) (\<lambda>jDists.
       let jDists' = sort jDists in
       and_then (comprehension (name_of data) (take 4 jDists')) (\<lambda>itemNames.
       and_then (comprehension (id_of data) (take 4 jDists')) (\<lambda>itemIDs.
         Inr (itemNames, itemIDs))))"

section \<open>Notions the properties are stated with\<close>

text \<open>
  The pattern \<^verbatim>\<open>T<tier>_<NAME>\<close> stands at position \<open>i\<close> of \<open>s\<close>: a \<open>T\<close>, a digit, an
  underscore and a word character. A string has the pattern when it stands somewhere.
\<close>

definition tier_pattern_at :: "string \<Rightarrow> nat \<Rightarrow> bool" where
  "tier_pattern_at s i =
     (i + 3 < length s \<and> s ! i = CHR ''T'' \<and> isdigit (s ! (i + 1)) \<and> s ! (i + 2) = CHR ''_'' \<and>
      isword (s ! (i + 3)))"

definition has_tier_pattern :: "string \<Rightarrow> bool" where
  "has_tier_pattern s = list_ex (tier_pattern_at s) [0..<length s]"


text \<open>
  The entries one item contributes to \<open>jDists\<close>, in closed form: one for \<open>UniqueName\<close>, one
  for the least distance over \<open>LocalizedNames\<close>, one for each of its \<open>cnames\<close>.
\<close>

definition uniqueName_entry :: "distance \<Rightarrow> string \<Rightarrow> item \<Rightarrow> rat" where
  "uniqueName_entry jd inputWord indivData =
     (case UniqueName indivData of
        None \<Rightarrow> 1
      | Some u \<Rightarrow> jd (lower inputWord) (lower u))"

definition localizedNames_entry :: "distance \<Rightarrow> string \<Rightarrow> item \<Rightarrow> rat" where
  "localizedNames_entry jd inputWord indivData =
     (case LocalizedNames indivData of
        Names kvs \<Rightarrow>
          if kvs = [] then 1
          else Min (set (map (\<lambda>kv. jd (lower inputWord) (lower (snd kv))) kvs))
      | _ \<Rightarrow> 1)"

definition entries :: "distance \<Rightarrow> string \<Rightarrow> nat \<Rightarrow> item \<Rightarrow> string list \<Rightarrow> (rat \<times> nat) list" where
  "entries jd inputWord i indivData cnames =
     [(uniqueName_entry jd inputWord indivData, i),
      (localizedNames_entry jd inputWord indivData, i)] @
     map (\<lambda>cname. (jd (lower inputWord) (lower cname), i)) cnames"

text \<open>
  A distance for the examples: \<open>0\<close> between equal strings, as \<open>difflib\<close> gives, and the
  largest distance \<open>1\<close> between different ones.
\<close>

definition example_dist :: distance where
  "example_dist w1 w2 = (if w1 = w2 then 0 else 1)"


section \<open>Properties of the identifier parser\<close>

lemma isdigit_not_int_space: "isdigit d \<Longrightarrow> \<not> int_space d"
  by (auto simp: isdigit_def int_space_def)

lemma isdigit_not_sign: "isdigit d \<Longrightarrow> d \<noteq> CHR ''-'' \<and> d \<noteq> CHR ''+''"
  by (auto simp: isdigit_def)

lemma py_int_digit: "isdigit d \<Longrightarrow> py_int [d] = Inr (int (digit_val d))"
  using isdigit_not_sign [of d]
  by (simp add: py_int_def isdigit_not_int_space decimal_def Let_def)

lemma py_int_Nil: "py_int [] = Inl ValueError"
  by (simp add: py_int_def)

lemma digit_val_le: "isdigit d \<Longrightarrow> digit_val d \<le> 9"
  by (auto simp: isdigit_def digit_val_def)

lemma py_int_error: "py_int s = Inl e \<Longrightarrow> e = ValueError"
  by (auto simp: py_int_def Let_def split: if_splits)

lemma tryInt_returns: "\<exists>v. tryInt s d = Inr v"
  by (cases "py_int s") (auto simp: tryInt_def dest: py_int_error)

lemma tryInt_digit: "isdigit d \<Longrightarrow> tryInt [d] k = Inr (int (digit_val d))"
  by (simp add: tryInt_def py_int_digit)

lemma tryInt_Nil: "tryInt [] k = Inr k"
  by (simp add: tryInt_def py_int_Nil)

lemma enchant_group_cases:
  "fst (enchant_group r) = [] \<or> (\<exists>d. fst (enchant_group r) = [d] \<and> isdigit d)"
  by (auto simp: enchant_group_def split: list.splits)

lemma TIER_REGEX_at_groups:
  assumes "TIER_REGEX_at s = Some ((t, n, e), r)"
  shows "(\<exists>d. t = [d] \<and> isdigit d) \<and> (e = [] \<or> (\<exists>d. e = [d] \<and> isdigit d))"
  using assms enchant_group_cases
  by (auto simp: TIER_REGEX_at_def split: list.splits if_splits)

lemma findall_Cons_match: "findall s = g # gs \<Longrightarrow> \<exists>s' r. TIER_REGEX_at s' = Some (g, r)"
proof (induction s rule: findall.induct)
  case (1 s)
  show ?case
  proof (cases s)
    case Nil
    with "1.prems" show ?thesis by (simp add: findall.simps)
  next
    case (Cons c cs)
    show ?thesis
    proof (cases "TIER_REGEX_at s")
      case None
      with Cons "1.prems" have "findall cs = g # gs"
        by (simp add: findall.simps [of "c # cs"])
      with "1.IH"(1) [OF Cons None] show ?thesis by blast
    next
      case (Some m)
      with Cons "1.prems" have "TIER_REGEX_at s = Some (g, snd m)"
        by (cases m) (simp add: findall.simps [of "c # cs"])
      then show ?thesis by blast
    qed
  qed
qed

lemma TIER_REGEX_at_iff: "TIER_REGEX_at s \<noteq> None \<longleftrightarrow> tier_pattern_at s 0"
proof (cases s)
  case Nil then show ?thesis by (simp add: TIER_REGEX_at_def tier_pattern_at_def)
next
  case (Cons t s1)
  show ?thesis
  proof (cases s1)
    case Nil with Cons show ?thesis by (simp add: TIER_REGEX_at_def tier_pattern_at_def)
  next
    case C2: (Cons d s2)
    show ?thesis
    proof (cases s2)
      case Nil with Cons C2 show ?thesis by (simp add: TIER_REGEX_at_def tier_pattern_at_def)
    next
      case C3: (Cons u r)
      have "takeWhile isword r \<noteq> [] \<longleftrightarrow> r \<noteq> [] \<and> isword (hd r)"
        by (cases r) auto
      with Cons C2 C3 show ?thesis
        by (cases r) (auto simp: TIER_REGEX_at_def tier_pattern_at_def)
    qed
  qed
qed

lemma tier_pattern_at_Suc: "tier_pattern_at (c # cs) (Suc i) = tier_pattern_at cs i"
  by (simp add: tier_pattern_at_def add.commute)

lemma has_tier_pattern_ex: "has_tier_pattern s \<longleftrightarrow> (\<exists>i. tier_pattern_at s i)"
  by (auto simp: has_tier_pattern_def list_ex_iff tier_pattern_at_def)

lemma has_tier_pattern_Cons:
  "has_tier_pattern (c # cs) \<longleftrightarrow> tier_pattern_at (c # cs) 0 \<or> has_tier_pattern cs"
proof -
  have "(\<exists>i. tier_pattern_at (c # cs) i) \<longleftrightarrow>
        tier_pattern_at (c # cs) 0 \<or> (\<exists>i. tier_pattern_at (c # cs) (Suc i))"
    by (metis not0_implies_Suc)
  then show ?thesis
    by (simp add: has_tier_pattern_ex tier_pattern_at_Suc)
qed

lemma findall_Nil_iff: "findall s = [] \<longleftrightarrow> \<not> has_tier_pattern s"
proof (induction s rule: findall.induct)
  case (1 s)
  show ?case
  proof (cases s)
    case Nil
    then show ?thesis
      by (simp add: findall.simps has_tier_pattern_def)
  next
    case (Cons c cs)
    show ?thesis
    proof (cases "TIER_REGEX_at s")
      case None
      then have "\<not> tier_pattern_at s 0"
        using TIER_REGEX_at_iff [of s] by simp
      moreover have "findall s = findall cs"
        using None Cons by (simp add: findall.simps [of "c # cs"])
      ultimately show ?thesis
        using "1.IH"(1) [OF Cons None] Cons by (simp add: has_tier_pattern_Cons)
    next
      case (Some m)
      then have "tier_pattern_at s 0"
        using TIER_REGEX_at_iff [of s] by simp
      moreover have "findall s \<noteq> []"
        using Some Cons by (cases m) (simp add: findall.simps [of "c # cs"])
      ultimately show ?thesis
        using Cons by (simp add: has_tier_pattern_Cons)
    qed
  qed
qed

text \<open>
  Claim C5. If \<open>TIER_REGEX\<close>'s pattern \<^verbatim>\<open>T<tier>_<NAME>\<close> stands nowhere in the string,
  \<open>_convertItem\<close> returns tier 1, enchant 0 and the whole string as the name; and for every
  string \<open>_convertItem\<close> returns a value: it never raises.
\<close>

theorem convertItem_without_pattern:
  "(\<not> has_tier_pattern s \<longrightarrow> convertItem s = Inr \<lparr>tier = 1, name = s, enchant = 0\<rparr>) \<and>
   (\<exists>nm. convertItem s = Inr nm)"
proof
  show "\<not> has_tier_pattern s \<longrightarrow> convertItem s = Inr \<lparr>tier = 1, name = s, enchant = 0\<rparr>"
    by (simp add: convertItem_def findall_Nil_iff [symmetric])
  show "\<exists>nm. convertItem s = Inr nm"
  proof (cases "findall s")
    case Nil
    then show ?thesis by (simp add: convertItem_def)
  next
    case (Cons g gs)
    obtain t n e where g: "g = (t, n, e)" by (cases g)
    obtain ti where ti: "tryInt t 1 = Inr ti" using tryInt_returns by blast
    obtain en where en: "tryInt e 0 = Inr en" using tryInt_returns by blast
    show ?thesis
      by (simp add: convertItem_def Cons g ti en)
  qed
qed

theorem convertItem_without_pattern_witness:
  "\<not> has_tier_pattern ''QUESTITEM_TOKEN_AVALON'' \<and>
   convertItem ''QUESTITEM_TOKEN_AVALON'' =
     Inr \<lparr>tier = 1, name = ''QUESTITEM_TOKEN_AVALON'', enchant = 0\<rparr>"
proof -
  have h: "\<not> has_tier_pattern ''QUESTITEM_TOKEN_AVALON''"
    by code_simp
  with convertItem_without_pattern [of "''QUESTITEM_TOKEN_AVALON''"] show ?thesis
    by blast
qed

text \<open>
  Claim C9, as the code has it. \<open>TIER_REGEX\<close> takes any one digit for the tier and for the
  enchantment, so the parsed identifier has a tier from 0 to 9 and an enchantment from 0
  to 9, for every string (the defaults 1 and 0 among them); the tier is not held to 1..8.
\<close>

theorem convertItem_tier_enchant_range:
  "\<exists>nm. convertItem s = Inr nm \<and> 0 \<le> tier nm \<and> tier nm \<le> 9 \<and> 0 \<le> enchant nm \<and> enchant nm \<le> 9"
proof (cases "findall s")
  case Nil
  then show ?thesis by (simp add: convertItem_def)
next
  case (Cons g gs)
  obtain t n e where g: "g = (t, n, e)" by (cases g)
  from findall_Cons_match [OF Cons] g obtain s' r where "TIER_REGEX_at s' = Some ((t, n, e), r)"
    by blast
  from TIER_REGEX_at_groups [OF this]
  obtain d where t: "t = [d]" and d: "isdigit d"
    and e: "e = [] \<or> (\<exists>d'. e = [d'] \<and> isdigit d')"
    by blast
  have ti: "tryInt t 1 = Inr (int (digit_val d))"
    using t d by (simp add: tryInt_digit)
  from e show ?thesis
  proof
    assume "e = []"
    then show ?thesis
      using digit_val_le [OF d] by (simp add: convertItem_def Cons g ti tryInt_Nil)
  next
    assume "\<exists>d'. e = [d'] \<and> isdigit d'"
    then obtain d' where e': "e = [d']" and d': "isdigit d'" by blast
    then show ?thesis
      using digit_val_le [OF d] digit_val_le [OF d']
      by (simp add: convertItem_def Cons g ti tryInt_digit)
  qed
qed

text \<open>The identifier \<open>T9_BAG\<close> parses to tier 9, outside 1..8.\<close>

theorem convertItem_tier_9:
  "convertItem ''T9_BAG'' = Inr \<lparr>tier = 9, name = ''BAG'', enchant = 0\<rparr> \<and>
   \<not> tier \<lparr>tier = 9, name = ''BAG'', enchant = 0\<rparr> \<le> 8"
proof -
  have "convertItem ''T9_BAG'' = Inr \<lparr>tier = 9, name = ''BAG'', enchant = 0\<rparr>"
    by code_simp
  then show ?thesis by simp
qed

section \<open>Properties of the alias normaliser\<close>

lemma and_then_Inr: "and_then r f = Inr v \<longleftrightarrow> (\<exists>x. r = Inr x \<and> f x = Inr v)"
  by (cases r) (simp_all add: and_then_def)

lemma and_then_Inr_left: "and_then (Inr x) f = f x"
  by (simp add: and_then_def)

lemma and_then_Inl_left: "and_then (Inl e) f = Inl e"
  by (simp add: and_then_def)

lemma append_common_Some:
  "CommonNames it = Some cs \<Longrightarrow> append_common s it = Inr (it\<lparr>CommonNames := Some (cs @ [s])\<rparr>)"
  by (simp add: append_common_def)

lemma append_common_Inr:
  "append_common s it = Inr it' \<longleftrightarrow>
     (\<exists>cs. CommonNames it = Some cs \<and> it' = it\<lparr>CommonNames := Some (cs @ [s])\<rparr>)"
  by (auto simp: append_common_def split: option.splits)

lemma addTierNickname_Some:
  assumes "CommonNames it = Some cs"
  shows "addTierNickname nm it =
           Inr (it\<lparr>CommonNames := Some (cs @ [short_dotted nm @ '' '' @ name nm] @
                  (if enchant nm = 0 then [short_bare nm @ '' '' @ name nm] else []))\<rparr>)"
  using assms
  by (simp add: addTierNickname_def append_common_Some and_then_Inr_left)

lemma index_Cons_0: "index (x # xs) 0 = Inr x"
  by (simp add: index_def)

lemma index_Nil: "index [] i = Inl IndexError"
  by (simp add: index_def)

lemma index_Cons_1: "index (x # y # ys) (Suc 0) = Inr y"
  by (simp add: index_def)

lemma index_single_1: "index [x] (Suc 0) = Inl IndexError"
  by (simp add: index_def)

lemma replaceLongTierName_skip:
  "en_us it = Inl TypeError \<Longrightarrow> replaceLongTierName nm it = Inr it"
  by (simp add: replaceLongTierName_def replaceLongTierName_try_def and_then_Inl_left)

lemma replaceLongEnchantName_skip:
  "en_us it = Inl TypeError \<Longrightarrow> replaceLongEnchantName nm it = Inr it"
  by (simp add: replaceLongEnchantName_def replaceLongEnchantName_try_def and_then_Inl_left)

lemma en_us_Null: "LocalizedNames it = Null \<Longrightarrow> en_us it = Inl TypeError"
  by (simp add: en_us_def)

lemma replaceLongTierName_words:
  assumes "en_us it = Inr longName" and "str_split longName = w # ws"
    and "CommonNames it = Some cs"
  shows "replaceLongTierName nm it =
           Inr (if w \<in> TIER_LONG_NAMES
                then it\<lparr>CommonNames := Some (cs @ [join '' '' (short_dotted nm # ws)] @
                       (if enchant nm = 0 then [join '' '' (short_bare nm # ws)] else []))\<rparr>
                else it)"
  using assms
  by (simp add: replaceLongTierName_def replaceLongTierName_try_def and_then_Inr_left
      index_Cons_0 append_common_Some)

lemma replaceLongEnchantName_two_words:
  assumes "en_us it = Inr longName" and "str_split longName = w1 # w2 # ws"
    and "w1 \<in> ENC_LONG_NAMES" and "CommonNames it = Some cs"
  shows "replaceLongEnchantName nm it =
           Inr (it\<lparr>CommonNames := Some (cs @
                  [join '' '' (short_dotted nm # w2 # ws)] @
                  (if w2 \<in> RESOURCE_NAMES then [join '' '' (short_dotted nm # ws)] else []) @
                  (if enchant nm = 0
                   then [join '' '' (short_bare nm # w2 # ws)] @
                        (if w2 \<in> RESOURCE_NAMES then [join '' '' (short_bare nm # ws)] else [])
                   else []))\<rparr>)"
  using assms
  by (simp add: replaceLongEnchantName_def replaceLongEnchantName_try_def and_then_Inr_left
      index_Cons_0 index_Cons_1 append_common_Some Let_def)

lemma replaceLongEnchantName_other_word:
  assumes "en_us it = Inr longName" and "str_split longName = w # ws"
    and "w \<notin> ENC_LONG_NAMES"
  shows "replaceLongEnchantName nm it = Inr it"
  using assms
  by (simp add: replaceLongEnchantName_def replaceLongEnchantName_try_def and_then_Inr_left
      index_Cons_0)

lemma replaceLongEnchantName_one_word:
  assumes "en_us it = Inr longName" and "str_split longName = [w]"
    and "w \<in> ENC_LONG_NAMES" and "CommonNames it = Some cs"
  shows "replaceLongEnchantName nm it = Inl IndexError"
  using assms
  by (simp add: replaceLongEnchantName_def replaceLongEnchantName_try_def and_then_Inr_left
      and_then_Inl_left index_Cons_0 index_single_1 append_common_Some Let_def)

lemma replaceLong_no_word:
  assumes "en_us it = Inr longName" and "str_split longName = []"
  shows "replaceLongTierName nm it = Inl IndexError"
    and "replaceLongEnchantName nm it = Inl IndexError"
  using assms
  by (simp_all add: replaceLongTierName_def replaceLongTierName_try_def
      replaceLongEnchantName_def replaceLongEnchantName_try_def and_then_Inr_left
      and_then_Inl_left index_Nil)

lemma replaceLong_KeyError:
  assumes "en_us it = Inl KeyError"
  shows "replaceLongTierName nm it = Inl KeyError"
    and "replaceLongEnchantName nm it = Inl KeyError"
  using assms
  by (simp_all add: replaceLongTierName_def replaceLongTierName_try_def
      replaceLongEnchantName_def replaceLongEnchantName_try_def and_then_Inl_left)

lemma main_item_Inr:
  "main_item it = Inr it' \<longleftrightarrow>
     (\<exists>u nm it1 it2. UniqueName it = Some u \<and> convertItem u = Inr nm \<and>
        addTierNickname nm (it\<lparr>CommonNames := Some []\<rparr>) = Inr it1 \<and>
        replaceLongTierName nm it1 = Inr it2 \<and> replaceLongEnchantName nm it2 = Inr it')"
  by (cases "UniqueName it")
    (auto simp: main_item_def Let_def and_then_Inr and_then_Inl_left and_then_Inr_left)

lemma replaceLongTierName_try_appends:
  assumes "replaceLongTierName_try nm it = Inr it'" and "CommonNames it = Some cs"
  shows "\<exists>extra. it' = it\<lparr>CommonNames := Some (cs @ extra)\<rparr>"
proof -
  from assms(1) obtain longName first where
    r: "(if first \<in> TIER_LONG_NAMES then
           and_then (append_common (join '' '' ([short_dotted nm] @ drop 1 (str_split longName))) it)
             (\<lambda>it1. if enchant nm = 0 then
                 append_common (join '' '' ([short_bare nm] @ drop 1 (str_split longName))) it1
               else Inr it1)
         else Inr it) = Inr it'"
    by (auto simp: replaceLongTierName_try_def and_then_Inr Let_def)
  show ?thesis
  proof (cases "first \<in> TIER_LONG_NAMES")
    case False
    with r assms(2) have "it' = it\<lparr>CommonNames := Some (cs @ [])\<rparr>" by simp
    then show ?thesis by blast
  next
    case True
    with r assms(2) show ?thesis
      by (auto simp: and_then_Inr append_common_Inr split: if_splits)
  qed
qed

lemma replaceLongTierName_appends:
  assumes "replaceLongTierName nm it = Inr it'" and "CommonNames it = Some cs"
  shows "\<exists>extra. it' = it\<lparr>CommonNames := Some (cs @ extra)\<rparr>"
proof (cases "replaceLongTierName_try nm it")
  case (Inr v)
  with assms(1) have "v = it'" by (simp add: replaceLongTierName_def)
  with Inr replaceLongTierName_try_appends [OF _ assms(2)] show ?thesis by blast
next
  case (Inl e)
  with assms(1) have "it' = it"
    by (cases e) (simp_all add: replaceLongTierName_def)
  with assms(2) have "it' = it\<lparr>CommonNames := Some (cs @ [])\<rparr>" by simp
  then show ?thesis by blast
qed

lemma replaceLongEnchantName_try_appends:
  assumes "replaceLongEnchantName_try nm it = Inr it'" and "CommonNames it = Some cs"
  shows "\<exists>extra. it' = it\<lparr>CommonNames := Some (cs @ extra)\<rparr>"
proof -
  from assms(1) obtain longName first where
    r: "(if first \<in> ENC_LONG_NAMES then
           and_then (append_common (join '' '' ([short_dotted nm] @ drop 1 (str_split longName))) it) (\<lambda>it1.
           and_then (index (str_split longName) 1) (\<lambda>second.
           and_then (if second \<in> RESOURCE_NAMES
                     then append_common (join '' '' ([short_dotted nm] @ drop 2 (str_split longName))) it1
                     else Inr it1) (\<lambda>it2.
             if enchant nm = 0 then
               and_then (append_common (join '' '' ([short_bare nm] @ drop 1 (str_split longName))) it2) (\<lambda>it3.
               and_then (index (str_split longName) 1) (\<lambda>second'.
                 if second' \<in> RESOURCE_NAMES
                 then append_common (join '' '' ([short_bare nm] @ drop 2 (str_split longName))) it3
                 else Inr it3))
             else Inr it2)))
         else Inr it) = Inr it'"
    by (auto simp: replaceLongEnchantName_try_def and_then_Inr Let_def)
  show ?thesis
  proof (cases "first \<in> ENC_LONG_NAMES")
    case False
    with r assms(2) have "it' = it\<lparr>CommonNames := Some (cs @ [])\<rparr>" by simp
    then show ?thesis by blast
  next
    case True
    with r obtain it1 second it2 where
      a1: "append_common (join '' '' ([short_dotted nm] @ drop 1 (str_split longName))) it = Inr it1"
      and a2: "(if second \<in> RESOURCE_NAMES
                then append_common (join '' '' ([short_dotted nm] @ drop 2 (str_split longName))) it1
                else Inr it1) = Inr it2"
      and a3: "(if enchant nm = 0 then
               and_then (append_common (join '' '' ([short_bare nm] @ drop 1 (str_split longName))) it2) (\<lambda>it3.
               and_then (index (str_split longName) 1) (\<lambda>second'.
                 if second' \<in> RESOURCE_NAMES
                 then append_common (join '' '' ([short_bare nm] @ drop 2 (str_split longName))) it3
                 else Inr it3))
             else Inr it2) = Inr it'"
      by (auto simp: and_then_Inr)
    from a1 assms(2) obtain e1 where it1: "it1 = it\<lparr>CommonNames := Some (cs @ e1)\<rparr>"
      by (auto simp: append_common_Inr)
    from a2 it1 obtain e2 where it2: "it2 = it\<lparr>CommonNames := Some (cs @ e2)\<rparr>"
      by (auto simp: append_common_Inr split: if_splits)
    from a3 it2 show ?thesis
      by (auto simp: and_then_Inr append_common_Inr split: if_splits)
  qed
qed

lemma replaceLongEnchantName_appends:
  assumes "replaceLongEnchantName nm it = Inr it'" and "CommonNames it = Some cs"
  shows "\<exists>extra. it' = it\<lparr>CommonNames := Some (cs @ extra)\<rparr>"
proof (cases "replaceLongEnchantName_try nm it")
  case (Inr v)
  with assms(1) have "v = it'" by (simp add: replaceLongEnchantName_def)
  with Inr replaceLongEnchantName_try_appends [OF _ assms(2)] show ?thesis by blast
next
  case (Inl e)
  with assms(1) have "it' = it"
    by (cases e) (simp_all add: replaceLongEnchantName_def)
  with assms(2) have "it' = it\<lparr>CommonNames := Some (cs @ [])\<rparr>" by simp
  then show ?thesis by blast
qed

lemma main_item_appends:
  assumes "main_item it = Inr it'"
  shows "\<exists>u nm rest. UniqueName it = Some u \<and> convertItem u = Inr nm \<and>
           it' = it\<lparr>CommonNames := Some ([short_dotted nm @ '' '' @ name nm] @
                   (if enchant nm = 0 then [short_bare nm @ '' '' @ name nm] else []) @ rest)\<rparr>"
proof -
  from assms obtain u nm it1 it2 where u: "UniqueName it = Some u" and nm: "convertItem u = Inr nm"
    and s1: "addTierNickname nm (it\<lparr>CommonNames := Some []\<rparr>) = Inr it1"
    and s2: "replaceLongTierName nm it1 = Inr it2"
    and s3: "replaceLongEnchantName nm it2 = Inr it'"
    by (auto simp: main_item_Inr)
  define first where
    "first = [short_dotted nm @ '' '' @ name nm] @
       (if enchant nm = 0 then [short_bare nm @ '' '' @ name nm] else [])"
  have it1: "it1 = it\<lparr>CommonNames := Some first\<rparr>"
    using s1 by (simp add: addTierNickname_Some first_def)
  from replaceLongTierName_appends [OF s2, of first] it1
  obtain e2 where it2: "it2 = it\<lparr>CommonNames := Some (first @ e2)\<rparr>" by auto
  from replaceLongEnchantName_appends [OF s3, of "first @ e2"] it2
  obtain e3 where "it' = it\<lparr>CommonNames := Some (first @ e2 @ e3)\<rparr>" by auto
  with u nm show ?thesis
    unfolding first_def by auto
qed

lemma main_item_reset: "main_item (it\<lparr>CommonNames := x\<rparr>) = main_item it"
  by (simp add: main_item_def)

lemma main_item_rerun:
  assumes "main_item it = Inr it'"
  shows "main_item it' = Inr it'"
proof -
  from main_item_appends [OF assms] obtain cs where "it' = it\<lparr>CommonNames := Some cs\<rparr>"
    by blast
  then show ?thesis
    using assms by (simp add: main_item_reset)
qed

lemma main_item_frame:
  assumes "main_item it = Inr it'"
  shows "UniqueName it' = UniqueName it \<and> LocalizedNames it' = LocalizedNames it"
proof -
  from main_item_appends [OF assms] obtain cs where "it' = it\<lparr>CommonNames := Some cs\<rparr>"
    by blast
  then show ?thesis by simp
qed

lemma main_loop_Cons_Inr:
  "main_loop (it # rawData) = Inr out \<longleftrightarrow>
     (\<exists>it' rest. main_item it = Inr it' \<and> main_loop rawData = Inr rest \<and> out = it' # rest)"
  by (auto simp: and_then_Inr)

lemma main_loop_rerun: "main_loop rawData = Inr out \<Longrightarrow> main_loop out = Inr out"
proof (induction rawData arbitrary: out)
  case Nil
  then show ?case by simp
next
  case (Cons it rawData)
  from Cons.prems [unfolded main_loop_Cons_Inr]
  obtain it' rest where i: "main_item it = Inr it'"
    and r: "main_loop rawData = Inr rest" and out: "out = it' # rest"
    by blast
  from Cons.IH [OF r] main_item_rerun [OF i] out show ?case
    by (simp add: and_then_Inr_left)
qed

lemma main_loop_frame:
  "main_loop rawData = Inr out \<Longrightarrow>
     length out = length rawData \<and> map UniqueName out = map UniqueName rawData \<and>
     map LocalizedNames out = map LocalizedNames rawData"
proof (induction rawData arbitrary: out)
  case Nil
  then show ?case by simp
next
  case (Cons it rawData)
  from Cons.prems [unfolded main_loop_Cons_Inr]
  obtain it' rest where i: "main_item it = Inr it'"
    and r: "main_loop rawData = Inr rest" and out: "out = it' # rest"
    by blast
  from Cons.IH [OF r] main_item_frame [OF i] out show ?case
    by simp
qed

lemma main_item_Null:
  assumes "UniqueName it = Some u" and "convertItem u = Inr nm" and "LocalizedNames it = Null"
  shows "main_item it =
           Inr (it\<lparr>CommonNames := Some ([short_dotted nm @ '' '' @ name nm] @
                  (if enchant nm = 0 then [short_bare nm @ '' '' @ name nm] else []))\<rparr>)"
proof -
  define it1 where
    "it1 = it\<lparr>CommonNames := Some ([short_dotted nm @ '' '' @ name nm] @
             (if enchant nm = 0 then [short_bare nm @ '' '' @ name nm] else []))\<rparr>"
  have s1: "addTierNickname nm (it\<lparr>CommonNames := Some []\<rparr>) = Inr it1"
    using addTierNickname_Some [of "it\<lparr>CommonNames := Some []\<rparr>" "[]" nm]
    by (simp add: it1_def)
  have "en_us it1 = Inl TypeError"
    using assms(3) by (simp add: en_us_def it1_def)
  then have "replaceLongTierName nm it1 = Inr it1" and "replaceLongEnchantName nm it1 = Inr it1"
    by (simp_all add: replaceLongTierName_skip replaceLongEnchantName_skip)
  with s1 assms(1,2) show ?thesis
    unfolding it1_def [symmetric] by (simp add: main_item_Inr)
qed

text \<open>
  Claim C6. \<open>_addTierNickname\<close> appends \<^verbatim>\<open>T{tier}.{enchant} {name}\<close> to \<open>CommonNames\<close>, and after
  it \<^verbatim>\<open>T{tier} {name}\<close> exactly when the enchantment is 0; it does so for every item that
  has the list, as every item in \<open>main\<close> has. So whenever \<open>main\<close>'s loop body returns, the
  item's \<open>CommonNames\<close> start with these aliases of its parsed \<open>UniqueName\<close>.
\<close>

theorem addTierNickname_aliases:
  "addTierNickname nm (it\<lparr>CommonNames := Some cs\<rparr>) =
     Inr (it\<lparr>CommonNames := Some (cs @
            [''T'' @ str (tier nm) @ ''.'' @ str (enchant nm) @ '' '' @ name nm] @
            (if enchant nm = 0 then [''T'' @ str (tier nm) @ '' '' @ name nm] else []))\<rparr>) \<and>
   (main_item raw = Inr enriched \<longrightarrow>
      (\<exists>u parsed rest. UniqueName raw = Some u \<and> convertItem u = Inr parsed \<and>
         CommonNames enriched = Some (
            [''T'' @ str (tier parsed) @ ''.'' @ str (enchant parsed) @ '' '' @ name parsed] @
            (if enchant parsed = 0 then [''T'' @ str (tier parsed) @ '' '' @ name parsed] else []) @
            rest)))"
proof
  show "addTierNickname nm (it\<lparr>CommonNames := Some cs\<rparr>) =
     Inr (it\<lparr>CommonNames := Some (cs @
            [''T'' @ str (tier nm) @ ''.'' @ str (enchant nm) @ '' '' @ name nm] @
            (if enchant nm = 0 then [''T'' @ str (tier nm) @ '' '' @ name nm] else []))\<rparr>)"
    using addTierNickname_Some [of "it\<lparr>CommonNames := Some cs\<rparr>" cs nm]
    by (simp add: short_dotted_def short_bare_def)
  show "main_item raw = Inr enriched \<longrightarrow>
      (\<exists>u parsed rest. UniqueName raw = Some u \<and> convertItem u = Inr parsed \<and>
         CommonNames enriched = Some (
            [''T'' @ str (tier parsed) @ ''.'' @ str (enchant parsed) @ '' '' @ name parsed] @
            (if enchant parsed = 0 then [''T'' @ str (tier parsed) @ '' '' @ name parsed] else []) @
            rest))"
  proof
    assume "main_item raw = Inr enriched"
    from main_item_appends [OF this] obtain u parsed rest where
      "UniqueName raw = Some u" "convertItem u = Inr parsed"
      "enriched = raw\<lparr>CommonNames := Some ([short_dotted parsed @ '' '' @ name parsed] @
         (if enchant parsed = 0 then [short_bare parsed @ '' '' @ name parsed] else []) @ rest)\<rparr>"
      by blast
    then show "\<exists>u parsed rest. UniqueName raw = Some u \<and> convertItem u = Inr parsed \<and>
         CommonNames enriched = Some (
            [''T'' @ str (tier parsed) @ ''.'' @ str (enchant parsed) @ '' '' @ name parsed] @
            (if enchant parsed = 0 then [''T'' @ str (tier parsed) @ '' '' @ name parsed] else []) @
            rest)"
      by (simp add: short_dotted_def short_bare_def)
  qed
qed

theorem addTierNickname_aliases_witness:
  "main_item \<lparr>UniqueName = Some ''T4_BAG@1'',
              LocalizedNames = Names [(''EN-US'', ''Adept's Bag'')], CommonNames = None\<rparr> =
     Inr \<lparr>UniqueName = Some ''T4_BAG@1'',
          LocalizedNames = Names [(''EN-US'', ''Adept's Bag'')],
          CommonNames = Some [''T4.1 BAG'', ''T4.1 Bag'']\<rparr> \<and>
   (\<exists>u parsed rest. Some ''T4_BAG@1'' = Some u \<and> convertItem u = Inr parsed \<and>
      Some [''T4.1 BAG'', ''T4.1 Bag''] = Some (
         [''T'' @ str (tier parsed) @ ''.'' @ str (enchant parsed) @ '' '' @ name parsed] @
         (if enchant parsed = 0 then [''T'' @ str (tier parsed) @ '' '' @ name parsed] else []) @
         rest))"
proof -
  have h: "main_item \<lparr>UniqueName = Some ''T4_BAG@1'',
              LocalizedNames = Names [(''EN-US'', ''Adept's Bag'')], CommonNames = None\<rparr> =
     Inr \<lparr>UniqueName = Some ''T4_BAG@1'',
          LocalizedNames = Names [(''EN-US'', ''Adept's Bag'')],
          CommonNames = Some [''T4.1 BAG'', ''T4.1 Bag'']\<rparr>"
    by code_simp
  from addTierNickname_aliases [THEN conjunct2, rule_format, OF h] h show ?thesis
    by simp
qed

text \<open>
  Claim C7, at a name of one word. \<open>_replaceLongEnchantName\<close> reads \<^verbatim>\<open>fields[1]\<close> without a
  check, so the name \<open>Rare\<close> raises \<open>IndexError\<close>, which the handler for \<open>TypeError\<close> lets
  pass: \<open>main\<close> ends with the exception and writes no catalog. For a name of two or more
  words the rule appends what the claim says (\<open>replaceLongEnchantName_two_words\<close>).
\<close>

theorem replaceLongEnchantName_one_word_raises:
  "main_loop [\<lparr>UniqueName = Some ''T4_ROCK'', LocalizedNames = Names [(''EN-US'', ''Rare'')],
               CommonNames = None\<rparr>] = Inl IndexError"
  by code_simp

text \<open>
  Claim C8, where localised names are missing. Only a \<open>LocalizedNames\<close> that is \<open>null\<close> is
  skipped (\<open>replaceLongTierName_skip\<close>, \<open>replaceLongEnchantName_skip\<close>): the handlers catch
  \<open>TypeError\<close> alone. An object without the \<open>EN-US\<close> locale and an item without
  \<open>LocalizedNames\<close> raise \<open>KeyError\<close>, an empty display name raises \<open>IndexError\<close>, and each
  ends \<open>main\<close>.
\<close>

theorem main_loop_missing_name_raises:
  "main_loop [\<lparr>UniqueName = Some ''T4_ROCK'', LocalizedNames = Names [(''DE-DE'', ''Stein'')],
               CommonNames = None\<rparr>] = Inl KeyError \<and>
   main_loop [\<lparr>UniqueName = Some ''T4_ROCK'', LocalizedNames = Absent,
               CommonNames = None\<rparr>] = Inl KeyError \<and>
   main_loop [\<lparr>UniqueName = Some ''T4_ROCK'', LocalizedNames = Names [(''EN-US'', '''')],
               CommonNames = None\<rparr>] = Inl IndexError"
  by code_simp

text \<open>
  Claim C10. When \<open>main\<close>'s loop has returned a catalog, the loop run on that catalog returns
  again, with as many items and with the \<open>UniqueName\<close> and the \<open>LocalizedNames\<close> of each
  item as they were.
\<close>

theorem main_loop_rerun_frame:
  assumes "main_loop rawData = Inr enriched"
  shows "\<exists>again. main_loop enriched = Inr again \<and> length again = length enriched \<and>
           map UniqueName again = map UniqueName enriched \<and>
           map LocalizedNames again = map LocalizedNames enriched"
  using main_loop_rerun [OF assms] by simp

theorem main_loop_rerun_frame_witness:
  "main_loop [\<lparr>UniqueName = Some ''T4_BAG'',
                LocalizedNames = Names [(''EN-US'', ''Adept's Bag'')], CommonNames = None\<rparr>] =
     Inr [\<lparr>UniqueName = Some ''T4_BAG'', LocalizedNames = Names [(''EN-US'', ''Adept's Bag'')],
           CommonNames = Some [''T4.0 BAG'', ''T4 BAG'', ''T4.0 Bag'', ''T4 Bag'']\<rparr>] \<and>
   (\<exists>again.
      main_loop [\<lparr>UniqueName = Some ''T4_BAG'',
                   LocalizedNames = Names [(''EN-US'', ''Adept's Bag'')],
                   CommonNames = Some [''T4.0 BAG'', ''T4 BAG'', ''T4.0 Bag'', ''T4 Bag'']\<rparr>] =
        Inr again \<and>
      length again = 1 \<and> map UniqueName again = [Some ''T4_BAG''] \<and>
      map LocalizedNames again = [Names [(''EN-US'', ''Adept's Bag'')]])"
proof -
  have h: "main_loop [\<lparr>UniqueName = Some ''T4_BAG'',
                LocalizedNames = Names [(''EN-US'', ''Adept's Bag'')], CommonNames = None\<rparr>] =
     Inr [\<lparr>UniqueName = Some ''T4_BAG'', LocalizedNames = Names [(''EN-US'', ''Adept's Bag'')],
           CommonNames = Some [''T4.0 BAG'', ''T4 BAG'', ''T4.0 Bag'', ''T4 Bag'']\<rparr>]"
    by code_simp
  from main_loop_rerun_frame [OF h] h show ?thesis
    by simp
qed

section \<open>Properties of the fuzzy matcher\<close>

lemma py_min_Min: "py_min xs = (if xs = [] then Inl ValueError else Inr (Min (set xs)))"
proof (cases xs)
  case Nil
  then show ?thesis by simp
next
  case (Cons x xs')
  have "fold min xs' x = Min (set (x # xs'))"
    by (rule Min.set_eq_fold [symmetric])
  with Cons show ?thesis by simp
qed

lemma or_one_uniqueName:
  "or_one (uniqueName_jDist jd inputWord indivData) = uniqueName_entry jd inputWord indivData"
  by (simp add: or_one_def uniqueName_jDist_def uniqueName_entry_def split: option.splits)

lemma or_one_localizedNames:
  "or_one (localizedNames_jDist jd inputWord indivData) =
     localizedNames_entry jd inputWord indivData"
  by (simp add: or_one_def localizedNames_jDist_def localizedNames_entry_def py_min_Min
      split: localized.splits)

lemma fold_append_map: "fold (\<lambda>c acc. acc @ [f c]) cs acc = acc @ map f cs"
  by (induction cs arbitrary: acc) simp_all

lemma score_item_entries:
  assumes "CommonNames indivData = Some cnames"
  shows "score_item jd inputWord i indivData jDists =
           Inr (jDists @ entries jd inputWord i indivData cnames)"
  using assms
  by (simp add: score_item_def Let_def or_one_uniqueName or_one_localizedNames
      fold_append_map entries_def)


lemma length_entries: "length (entries jd inputWord i indivData cnames) = 2 + length cnames"
  by (simp add: entries_def)

lemma snd_entries: "c \<in> set (entries jd inputWord i indivData cnames) \<Longrightarrow> snd c = i"
  by (auto simp: entries_def)

lemma match_loop_entries:
  assumes "list_all (\<lambda>indivData. CommonNames indivData \<noteq> None) data"
  shows "match_loop jd inputWord i data jDists =
           Inr (jDists @ concat (map (\<lambda>(k, indivData).
                  entries jd inputWord k indivData (the (CommonNames indivData)))
                (enumerate i data)))"
  using assms
proof (induction data arbitrary: i jDists)
  case Nil
  then show ?case by simp
next
  case (Cons indivData data)
  from Cons.prems obtain cnames where c: "CommonNames indivData = Some cnames"
    by auto
  from Cons.prems have rest: "list_all (\<lambda>indivData. CommonNames indivData \<noteq> None) data"
    by simp
  show ?case
    by (simp add: score_item_entries [OF c] and_then_Inr_left Cons.IH [OF rest] c)
qed



lemma comprehension_returns:
  "(\<forall>x \<in> set xs. \<not> isl (f x)) \<Longrightarrow> \<not> isl (comprehension f xs)"
proof (induction xs)
  case Nil
  then show ?case by simp
next
  case (Cons x xs)
  then obtain y ys where "f x = Inr y" and "comprehension f xs = Inr ys"
    by (cases "f x"; cases "comprehension f xs") auto
  then show ?case by (simp add: and_then_Inr_left)
qed

lemma comprehension_raises:
  "f x = Inl e \<Longrightarrow> comprehension f (x # xs) = Inl e"
  by (simp add: and_then_Inl_left)




text \<open>
  Claim C2. For a catalog whose items all have \<open>CommonNames\<close>, as every item of an enriched
  catalog has, the loop leaves in \<open>jDists\<close>, item after item in the order of their indices
  \<open>i\<close>: one entry for the lower-cased \<open>UniqueName\<close> (distance 1 when it is missing), one
  entry with the least distance over the lower-cased values of \<open>LocalizedNames\<close> (1 when the
  object is empty, \<open>null\<close> or missing), and one entry for each of the \<open>CommonNames\<close>, each
  paired with \<open>i\<close>.
\<close>

theorem match_loop_candidates:
  assumes "list_all (\<lambda>indivData. CommonNames indivData \<noteq> None) data"
  shows "match_loop jd inputWord 0 data [] =
           Inr (concat (map (\<lambda>(i, indivData).
                  [(uniqueName_entry jd inputWord indivData, i),
                   (localizedNames_entry jd inputWord indivData, i)] @
                  map (\<lambda>cname. (jd (lower inputWord) (lower cname), i))
                    (the (CommonNames indivData)))
                (enumerate 0 data)))"
  using match_loop_entries [OF assms, of jd inputWord 0 "[]"]
  by (simp add: entries_def)

theorem match_loop_candidates_witness:
  "list_all (\<lambda>indivData. CommonNames indivData \<noteq> None)
     [\<lparr>UniqueName = Some ''T4_BAG'', LocalizedNames = Names [(''DE-DE'', ''Tasche''), (''EN-US'', ''T4 Bag'')],
       CommonNames = Some [''T4.0 BAG'', ''T4 BAG'']\<rparr>,
      \<lparr>UniqueName = None, LocalizedNames = Null, CommonNames = Some []\<rparr>] \<and>
   match_loop example_dist ''t4 bag'' 0
     [\<lparr>UniqueName = Some ''T4_BAG'', LocalizedNames = Names [(''DE-DE'', ''Tasche''), (''EN-US'', ''T4 Bag'')],
       CommonNames = Some [''T4.0 BAG'', ''T4 BAG'']\<rparr>,
      \<lparr>UniqueName = None, LocalizedNames = Null, CommonNames = Some []\<rparr>] [] =
     Inr [(1, 0), (0, 0), (1, 0), (0, 0), (1, 1), (1, 1)]"
proof -
  have h: "list_all (\<lambda>indivData. CommonNames indivData \<noteq> None)
     [\<lparr>UniqueName = Some ''T4_BAG'', LocalizedNames = Names [(''DE-DE'', ''Tasche''), (''EN-US'', ''T4 Bag'')],
       CommonNames = Some [''T4.0 BAG'', ''T4 BAG'']\<rparr>,
      \<lparr>UniqueName = None, LocalizedNames = Null, CommonNames = Some []\<rparr>]"
    by simp
  have e: "concat (map (\<lambda>(i, indivData).
                  [(uniqueName_entry example_dist ''t4 bag'' indivData, i),
                   (localizedNames_entry example_dist ''t4 bag'' indivData, i)] @
                  map (\<lambda>cname. (example_dist (lower ''t4 bag'') (lower cname), i))
                    (the (CommonNames indivData)))
                (enumerate 0
     [\<lparr>UniqueName = Some ''T4_BAG'', LocalizedNames = Names [(''DE-DE'', ''Tasche''), (''EN-US'', ''T4 Bag'')],
       CommonNames = Some [''T4.0 BAG'', ''T4 BAG'']\<rparr>,
      \<lparr>UniqueName = None, LocalizedNames = Null, CommonNames = Some []\<rparr>])) =
      [(1, 0), (0, 0), (1, 0), (0, 0), (1, 1), (1, 1)]"
    by code_simp
  from match_loop_candidates [OF h, of example_dist "''t4 bag''"] h e show ?thesis
    by simp
qed






text \<open>
  Claim C3, as the code has it. On an empty catalog the loop does not run, \<open>jDists\<close> stays
  empty and \<open>item_match\<close> returns two empty lists, for every query: it raises nothing.
\<close>

theorem item_match_empty: "item_match jd inputWord [] = Inr ([], [])"
  by (simp add: item_match_def and_then_Inr_left)

text \<open>The query \<open>t4 bag\<close> on the empty catalog returns, it does not raise.\<close>

theorem item_match_empty_returns:
  "item_match example_dist ''t4 bag'' [] = Inr ([], []) \<and>
   \<not> isl (item_match example_dist ''t4 bag'' [])"
  by (simp add: item_match_def and_then_Inr_left)

lemma item_match_single:
  assumes "CommonNames it = Some cnames"
  shows "\<exists>c rest. item_match jd inputWord [it] =
           and_then (comprehension (name_of [it]) (c # rest)) (\<lambda>itemNames.
           and_then (comprehension (id_of [it]) (c # rest)) (\<lambda>itemIDs.
             Inr (itemNames, itemIDs))) \<and>
           (\<forall>x \<in> set (c # rest). snd x = 0)"
proof -
  define jDists where "jDists = entries jd inputWord 0 it cnames"
  have m: "match_loop jd inputWord 0 [it] [] = Inr jDists"
    using score_item_entries [OF assms, of jd inputWord 0 "[]"]
    by (simp add: and_then_Inr_left jDists_def)
  have zero: "\<forall>x \<in> set (take 4 (sort jDists)). snd x = 0"
  proof
    fix x assume "x \<in> set (take 4 (sort jDists))"
    then have "x \<in> set jDists"
      using set_take_subset [of 4 "sort jDists"] by auto
    then show "snd x = 0"
      unfolding jDists_def by (rule snd_entries)
  qed
  have "length (take 4 (sort jDists)) \<noteq> 0"
    by (simp add: jDists_def length_entries)
  then obtain c rest where t: "take 4 (sort jDists) = c # rest"
    by (cases "take 4 (sort jDists)") auto
  have "item_match jd inputWord [it] =
           and_then (comprehension (name_of [it]) (c # rest)) (\<lambda>itemNames.
           and_then (comprehension (id_of [it]) (c # rest)) (\<lambda>itemIDs.
             Inr (itemNames, itemIDs)))"
    by (simp only: item_match_def m and_then_Inr_left Let_def t)
  with zero t show ?thesis by metis
qed

lemma item_match_single_no_name:
  assumes "CommonNames it = Some cnames" and "en_us it = Inl e"
  shows "item_match jd inputWord [it] = Inl e"
proof -
  from item_match_single [OF assms(1), of jd inputWord] obtain c rest where
    i: "item_match jd inputWord [it] =
           and_then (comprehension (name_of [it]) (c # rest)) (\<lambda>itemNames.
           and_then (comprehension (id_of [it]) (c # rest)) (\<lambda>itemIDs.
             Inr (itemNames, itemIDs)))"
    and z: "\<forall>x \<in> set (c # rest). snd x = 0"
    by blast
  from z have "name_of [it] c = Inl e"
    by (simp add: name_of_def index_def and_then_Inr_left assms(2))
  then have "comprehension (name_of [it]) (c # rest) = Inl e"
    by (rule comprehension_raises)
  with i show ?thesis
    by (simp add: and_then_Inl_left)
qed

lemma item_match_single_no_id:
  assumes "CommonNames it = Some cnames" and "en_us it = Inr v" and "UniqueName it = None"
  shows "item_match jd inputWord [it] = Inl KeyError"
proof -
  from item_match_single [OF assms(1), of jd inputWord] obtain c rest where
    i: "item_match jd inputWord [it] =
           and_then (comprehension (name_of [it]) (c # rest)) (\<lambda>itemNames.
           and_then (comprehension (id_of [it]) (c # rest)) (\<lambda>itemIDs.
             Inr (itemNames, itemIDs)))"
    and z: "\<forall>x \<in> set (c # rest). snd x = 0"
    by blast
  from z have "\<forall>x \<in> set (c # rest). \<not> isl (name_of [it] x)"
    by (simp add: name_of_def index_def and_then_Inr_left assms(2))
  then have "\<not> isl (comprehension (name_of [it]) (c # rest))"
    by (rule comprehension_returns)
  then obtain ns where ns: "comprehension (name_of [it]) (c # rest) = Inr ns"
    by (cases "comprehension (name_of [it]) (c # rest)") auto
  from z have "id_of [it] c = Inl KeyError"
    by (simp add: id_of_def index_def and_then_Inr_left assms(3))
  then have "comprehension (id_of [it]) (c # rest) = Inl KeyError"
    by (rule comprehension_raises)
  with i ns show ?thesis
    by (simp add: and_then_Inl_left and_then_Inr_left)
qed

text \<open>
  Claim C4, where a matched item lacks a name or an id. The loop scores missing fields
  with distance 1, but the two comprehensions after it read \<open>LocalizedNames\<close>, \<open>EN-US\<close> and
  \<open>UniqueName\<close> of the first four entries with no handler. For every query and every
  distance: a catalog of one item whose \<open>LocalizedNames\<close> is \<open>null\<close> raises \<open>TypeError\<close>, and
  one of an item without \<open>UniqueName\<close> raises \<open>KeyError\<close>.
\<close>

theorem item_match_missing_field_raises:
  "item_match jd inputWord
     [\<lparr>UniqueName = Some ''T4_BAG'', LocalizedNames = Null,
       CommonNames = Some [''T4.0 BAG'', ''T4 BAG'']\<rparr>] = Inl TypeError \<and>
   item_match jd inputWord
     [\<lparr>UniqueName = None, LocalizedNames = Names [(''EN-US'', ''Bag'')],
       CommonNames = Some []\<rparr>] = Inl KeyError"
proof
  show "item_match jd inputWord
     [\<lparr>UniqueName = Some ''T4_BAG'', LocalizedNames = Null,
       CommonNames = Some [''T4.0 BAG'', ''T4 BAG'']\<rparr>] = Inl TypeError"
    by (rule item_match_single_no_name) (simp_all add: en_us_def)
  show "item_match jd inputWord
     [\<lparr>UniqueName = None, LocalizedNames = Names [(''EN-US'', ''Bag'')],
       CommonNames = Some []\<rparr>] = Inl KeyError"
    by (rule item_match_single_no_id) (simp_all add: en_us_def)
qed

end
